theory Spec2Isabelle
  imports Complex_Main
begin

section \<open>Values, errors and location records\<close>

text \<open>
  A location record arrives as a JSON object, so each attribute holds a JSON value.
  The numbers of a record (Python \<open>int\<close> and \<open>float\<close>) are modelled as exact reals,
  and arithmetic on numbers is exact: the rounding of IEEE doubles and their finite
  range are not modelled.
\<close>

datatype pyval =
    PNone
  | PBool bool
  | PNum real
  | PStr string
  | PList "pyval list"
  | PDict "(string \<times> pyval) list"

datatype py_error =
    TypeError | KeyError | AttributeError | ZeroDivisionError | NotFittedError | ModelError

type_synonym location = "string \<rightharpoonup> pyval"

text \<open>\<open>location_data.get(key, default)\<close>.\<close>

definition dict_get :: "location \<Rightarrow> string \<Rightarrow> pyval \<Rightarrow> pyval" where
  "dict_get d k dflt = (case d k of None \<Rightarrow> dflt | Some v \<Rightarrow> v)"

text \<open>
  The numeric reading of a value in arithmetic and in order comparisons with a number:
  \<open>bool\<close> is a subclass of \<open>int\<close>; every other non-number raises \<open>TypeError\<close>.
\<close>

fun as_num :: "pyval \<Rightarrow> real option" where
  "as_num (PNum r) = Some r"
| "as_num (PBool b) = Some (if b then 1 else 0)"
| "as_num PNone = None"
| "as_num (PStr s) = None"
| "as_num (PList xs) = None"
| "as_num (PDict kvs) = None"

text \<open>\<open>v / c\<close>, \<open>v > c\<close> and \<open>v < c\<close> for a numeric constant \<open>c\<close>.\<close>

definition py_div :: "pyval \<Rightarrow> real \<Rightarrow> py_error + pyval" where
  "py_div v c = (case as_num v of None \<Rightarrow> Inl TypeError | Some r \<Rightarrow> Inr (PNum (r / c)))"

definition py_gt :: "pyval \<Rightarrow> real \<Rightarrow> py_error + bool" where
  "py_gt v c = (case as_num v of None \<Rightarrow> Inl TypeError | Some r \<Rightarrow> Inr (r > c))"

definition py_lt :: "pyval \<Rightarrow> real \<Rightarrow> py_error + bool" where
  "py_lt v c = (case as_num v of None \<Rightarrow> Inl TypeError | Some r \<Rightarrow> Inr (r < c))"

text \<open>Truth value of a value in an \<open>if\<close>.\<close>

fun truthy :: "pyval \<Rightarrow> bool" where
  "truthy PNone = False"
| "truthy (PBool b) = b"
| "truthy (PNum r) = (r \<noteq> 0)"
| "truthy (PStr s) = (s \<noteq> [])"
| "truthy (PList xs) = (xs \<noteq> [])"
| "truthy (PDict kvs) = (kvs \<noteq> [])"

text \<open>Sequencing of statements that may raise: the first exception ends the block.\<close>

definition bind_result :: "py_error + 'a \<Rightarrow> ('a \<Rightarrow> py_error + 'b) \<Rightarrow> py_error + 'b" where
  "bind_result r f = (case r of Inl e \<Rightarrow> Inl e | Inr x \<Rightarrow> f x)"

section \<open>Feature construction (\<open>prepare_ev_features\<close>)\<close>

text \<open>The dictionary built by \<open>prepare_ev_features\<close> always has these 15 keys, in this order.\<close>

record features =
  traffic_density :: pyval
  population_density :: pyval
  income_level :: pyval
  commercial_score :: pyval
  residential_score :: pyval
  industrial_score :: pyval
  proximity_highway :: pyval
  proximity_mall :: pyval
  proximity_office :: pyval
  ev_adoption_rate :: pyval
  solar_potential :: pyval
  land_cost :: pyval
  electricity_cost :: pyval
  government_subsidy :: pyval
  competition_score :: pyval

definition prepare_ev_features :: "location \<Rightarrow> py_error + features" where
  "prepare_ev_features location_data =
     bind_result (py_div (dict_get location_data ''daily_vehicles'' (PNum 0)) 1000) (\<lambda>traffic.
     bind_result (py_div (dict_get location_data ''avg_income'' (PNum 0)) 1000) (\<lambda>income.
     bind_result (py_div (dict_get location_data ''land_cost'' (PNum 0)) 100000) (\<lambda>land.
       Inr \<lparr> traffic_density = traffic,
             population_density = dict_get location_data ''population_density'' (PNum 0),
             income_level = income,
             commercial_score = dict_get location_data ''commercial_score'' (PNum 0),
             residential_score = dict_get location_data ''residential_score'' (PNum 0),
             industrial_score = dict_get location_data ''industrial_score'' (PNum 0),
             proximity_highway = dict_get location_data ''highway_distance'' (PNum 10),
             proximity_mall = dict_get location_data ''mall_distance'' (PNum 5),
             proximity_office = dict_get location_data ''office_distance'' (PNum 3),
             ev_adoption_rate = dict_get location_data ''ev_adoption'' (PNum 0),
             solar_potential = dict_get location_data ''solar_potential'' (PNum 0),
             land_cost = land,
             electricity_cost = dict_get location_data ''electricity_rate'' (PNum 0),
             government_subsidy = dict_get location_data ''subsidy_available'' (PNum 0),
             competition_score = dict_get location_data ''competition'' (PNum 0) \<rparr>)))"

text \<open>\<open>list(features.values())\<close>: the values in insertion order.\<close>

definition feature_values :: "features \<Rightarrow> pyval list" where
  "feature_values f =
     [traffic_density f, population_density f, income_level f, commercial_score f,
      residential_score f, industrial_score f, proximity_highway f, proximity_mall f,
      proximity_office f, ev_adoption_rate f, solar_potential f, land_cost f,
      electricity_cost f, government_subsidy f, competition_score f]"

section \<open>Python floats with their special values\<close>

text \<open>
  The ROI figures are Python floats. The output of a trained model is whatever float the
  artifact produces, so besides numbers it may be NaN or an infinity, and the code's own
  \<open>float('inf')\<close> is such a value too. Arithmetic and comparisons follow IEEE 754 on
  the special values: NaN propagates through arithmetic and every comparison with NaN is
  false.
\<close>

datatype pyfloat = Number real | PosInf | NegInf | NaN

text \<open>\<open>x + c\<close>, \<open>x - c\<close> and \<open>x * c\<close> for a numeric constant \<open>c\<close>.\<close>

fun fadd :: "pyfloat \<Rightarrow> real \<Rightarrow> pyfloat" where
  "fadd (Number x) c = Number (x + c)"
| "fadd PosInf c = PosInf"
| "fadd NegInf c = NegInf"
| "fadd NaN c = NaN"

fun fsub :: "pyfloat \<Rightarrow> real \<Rightarrow> pyfloat" where
  "fsub (Number x) c = Number (x - c)"
| "fsub PosInf c = PosInf"
| "fsub NegInf c = NegInf"
| "fsub NaN c = NaN"

fun fmul :: "pyfloat \<Rightarrow> real \<Rightarrow> pyfloat" where
  "fmul (Number x) c = Number (x * c)"
| "fmul PosInf c = (if 0 < c then PosInf else if c < 0 then NegInf else NaN)"
| "fmul NegInf c = (if 0 < c then NegInf else if c < 0 then PosInf else NaN)"
| "fmul NaN c = NaN"

text \<open>\<open>a < b\<close> and \<open>a <= b\<close>.\<close>

fun flt :: "pyfloat \<Rightarrow> pyfloat \<Rightarrow> bool" where
  "flt (Number x) (Number y) = (x < y)"
| "flt (Number x) PosInf = True"
| "flt NegInf (Number y) = True"
| "flt NegInf PosInf = True"
| "flt a b = False"

fun fle :: "pyfloat \<Rightarrow> pyfloat \<Rightarrow> bool" where
  "fle (Number x) (Number y) = (x \<le> y)"
| "fle (Number x) PosInf = True"
| "fle NegInf (Number y) = True"
| "fle NegInf PosInf = True"
| "fle PosInf PosInf = True"
| "fle NegInf NegInf = True"
| "fle a b = False"

text \<open>
  The builtins \<open>max(a, b)\<close> and \<open>min(a, b)\<close>: the first argument is kept unless the
  second is strictly greater (smaller), so a NaN first argument is returned as it is.
\<close>

definition py_max :: "pyfloat \<Rightarrow> pyfloat \<Rightarrow> pyfloat" where
  "py_max a b = (if flt a b then b else a)"

definition py_min :: "pyfloat \<Rightarrow> pyfloat \<Rightarrow> pyfloat" where
  "py_min a b = (if flt b a then b else a)"

text \<open>\<open>c / x\<close> for a numeric constant \<open>c\<close>: division by zero raises.\<close>

fun py_rdiv :: "real \<Rightarrow> pyfloat \<Rightarrow> py_error + pyfloat" where
  "py_rdiv c (Number x) = (if x = 0 then Inl ZeroDivisionError else Inr (Number (c / x)))"
| "py_rdiv c PosInf = Inr (Number 0)"
| "py_rdiv c NegInf = Inr (Number 0)"
| "py_rdiv c NaN = Inr NaN"

section \<open>ROI estimation\<close>

text \<open>\<open>calculate_fallback_roi\<close>: five threshold tests in source order, then the cap.\<close>

definition calculate_fallback_roi :: "features \<Rightarrow> py_error + real" where
  "calculate_fallback_roi f =
     bind_result (py_gt (traffic_density f) 5) (\<lambda>c1.
     bind_result (py_gt (income_level f) 75) (\<lambda>c2.
     bind_result (py_gt (ev_adoption_rate f) 20) (\<lambda>c3.
     bind_result (py_lt (competition_score f) 3) (\<lambda>c4.
     bind_result (py_gt (government_subsidy f) 0) (\<lambda>c5.
       (let b0 = 12;
            b1 = (if c1 then b0 + 3 else b0);
            b2 = (if c2 then b1 + 2 else b1);
            b3 = (if c3 then b2 + 4 else b2);
            b4 = (if c4 then b3 + 2 else b3);
            b5 = (if c5 then b4 + 3 else b4)
        in Inr (min b5 35)))))))"

text \<open>\<open>adjust_roi\<close>: reads the flags of the raw record by truth value, then the floor.\<close>

definition adjust_roi :: "pyfloat \<Rightarrow> location \<Rightarrow> pyfloat" where
  "adjust_roi base_roi location_data =
     (let a0 = base_roi;
          a1 = (if truthy (dict_get location_data ''fast_charging'' (PBool False)) then fadd a0 5 else a0);
          a2 = (if truthy (dict_get location_data ''solar_powered'' (PBool False)) then fadd a1 3 else a1);
          a3 = (if truthy (dict_get location_data ''amenities'' (PBool False)) then fadd a2 2 else a2);
          a4 = (if truthy (dict_get location_data ''high_competition'' (PBool False)) then fsub a3 4 else a3);
          a5 = (if truthy (dict_get location_data ''high_land_cost'' (PBool False)) then fsub a4 3 else a4)
      in py_max a5 (Number 5))"

text \<open>\<open>calculate_payback_period\<close>: \<open>float('inf')\<close> when the ROI is at most 0.\<close>

definition calculate_payback_period :: "pyfloat \<Rightarrow> py_error + pyfloat" where
  "calculate_payback_period annual =
     (if fle annual (Number 0) then Inr PosInf else py_rdiv 100 annual)"

definition calculate_break_even :: "pyfloat \<Rightarrow> py_error + pyfloat" where
  "calculate_break_even annual =
     bind_result (calculate_payback_period annual) (\<lambda>payback_years.
       Inr (fmul payback_years 12))"

text \<open>
  \<open>estimate_revenue\<close>. \<open>int(x)\<close> on a float truncates towards zero. The product is
  computed exactly here, where the code computes it in doubles: the truncated integer of
  the code can differ by one from this one, and the code raises \<open>OverflowError\<close> on
  numbers beyond the range of a double. No statement below depends on the revenue figure.
\<close>

definition py_int :: "real \<Rightarrow> int" where
  "py_int x = (if 0 \<le> x then \<lfloor>x\<rfloor> else \<lceil>x\<rceil>)"

definition estimate_revenue :: "location \<Rightarrow> py_error + int" where
  "estimate_revenue location_data =
     (let base_revenue = 50000;
          vehicles = dict_get location_data ''daily_vehicles'' (PNum 1000);
          ev_rate = dict_get location_data ''ev_adoption'' (PNum 5)
      in bind_result (py_div ev_rate 100) (\<lambda>share.
           case (as_num vehicles, as_num share) of
             (Some v, Some s) \<Rightarrow>
               (let estimated_ev_traffic = v * s * (1 / 10);
                    revenue = base_revenue + estimated_ev_traffic * 365 * 15
                in Inr (py_int revenue))
           | _ \<Rightarrow> Inl TypeError))"

section \<open>The model registry (\<open>load_essential_models\<close>)\<close>

text \<open>
  A trained artifact is external: its prediction on the list of feature values is a
  parameter of the model, and may raise. The state of an artifact file at startup is
  absent (\<open>os.path.exists\<close> is false), present but raising while it is loaded, or
  loaded.
\<close>

datatype roi_model = Booster "pyval list \<Rightarrow> py_error + pyfloat" | FallbackMarker

text \<open>
  \<open>UnfittedKMeans\<close> is the \<open>KMeans(n_clusters=4, random_state=42)\<close> object of
  \<open>create_fallback_cluster_model\<close>; nothing in the repository ever calls \<open>fit\<close> on it.
\<close>

datatype cluster_model = Pickled "pyval list \<Rightarrow> py_error + int" | UnfittedKMeans

datatype 'm artifact = Absent | Unloadable | Loadable 'm

text \<open>The dictionary \<open>self.models\<close>: each of its two keys may be missing.\<close>

record models =
  roi_predictor :: "roi_model option"
  location_cluster :: "cluster_model option"

definition create_fallback_roi_model :: "models \<Rightarrow> models" where
  "create_fallback_roi_model m = m\<lparr>roi_predictor := Some FallbackMarker\<rparr>"

definition create_fallback_cluster_model :: "models \<Rightarrow> models" where
  "create_fallback_cluster_model m = m\<lparr>location_cluster := Some UnfittedKMeans\<rparr>"

text \<open>
  The first \<open>try\<close> block: nothing is registered when the file does not exist; the
  \<open>except\<close> branch, and with it the fallback, is reached only when loading raises.
\<close>

definition load_roi_model :: "(pyval list \<Rightarrow> py_error + pyfloat) artifact \<Rightarrow> models \<Rightarrow> models" where
  "load_roi_model xgb_file m =
     (case xgb_file of
        Absent \<Rightarrow> m
      | Loadable b \<Rightarrow> m\<lparr>roi_predictor := Some (Booster b)\<rparr>
      | Unloadable \<Rightarrow> create_fallback_roi_model m)"

definition load_cluster_model :: "(pyval list \<Rightarrow> py_error + int) artifact \<Rightarrow> models \<Rightarrow> models" where
  "load_cluster_model cluster_file m =
     (case cluster_file of
        Absent \<Rightarrow> m
      | Loadable c \<Rightarrow> m\<lparr>location_cluster := Some (Pickled c)\<rparr>
      | Unloadable \<Rightarrow> create_fallback_cluster_model m)"

definition load_essential_models ::
  "(pyval list \<Rightarrow> py_error + pyfloat) artifact \<Rightarrow> (pyval list \<Rightarrow> py_error + int) artifact \<Rightarrow> models" where
  "load_essential_models xgb_file cluster_file =
     load_cluster_model cluster_file
       (load_roi_model xgb_file \<lparr>roi_predictor = None, location_cluster = None\<rparr>)"

section \<open>\<open>predict_roi\<close>\<close>

record roi_result =
  annual_roi :: pyfloat
  payback_period :: pyfloat
  break_even_months :: pyfloat
  estimated_annual_revenue :: int

text \<open>The result of the \<open>except\<close> branch of \<open>predict_roi\<close>.\<close>

definition default_roi :: roi_result where
  "default_roi = \<lparr> annual_roi = Number 15, payback_period = Number (67 / 10),
                    break_even_months = Number 80, estimated_annual_revenue = 120000 \<rparr>"

text \<open>
  The base ROI inside the \<open>try\<close>: \<open>self.models['roi_predictor']\<close> raises \<open>KeyError\<close>
  when nothing is registered. The float of a trained model is taken as it comes, NaN and
  infinities included; the fallback formula always yields a number.
\<close>

definition base_roi_of :: "models \<Rightarrow> features \<Rightarrow> py_error + pyfloat" where
  "base_roi_of m f =
     (case roi_predictor m of
        None \<Rightarrow> Inl KeyError
      | Some (Booster b) \<Rightarrow> b (feature_values f)
      | Some FallbackMarker \<Rightarrow>
          bind_result (calculate_fallback_roi f) (\<lambda>base_roi. Inr (Number base_roi)))"

text \<open>
  The entries of the result dictionary are evaluated in the order written; an exception
  in any of them, as in the base ROI, is caught and gives the default result.
\<close>

definition predict_roi :: "models \<Rightarrow> features \<Rightarrow> location \<Rightarrow> roi_result" where
  "predict_roi m f location_data =
     (case bind_result (base_roi_of m f) (\<lambda>base_roi.
             (let adjusted_roi = adjust_roi base_roi location_data
              in bind_result (calculate_payback_period adjusted_roi) (\<lambda>payback.
                 bind_result (calculate_break_even adjusted_roi) (\<lambda>break_even.
                 bind_result (estimate_revenue location_data) (\<lambda>revenue.
                   Inr \<lparr> annual_roi = adjusted_roi,
                         payback_period = payback,
                         break_even_months = break_even,
                         estimated_annual_revenue = revenue \<rparr>))))) of
        Inl e \<Rightarrow> default_roi
      | Inr r \<Rightarrow> r)"

section \<open>Location clustering\<close>

record cluster_result =
  cluster_id :: int
  cluster_name :: string
  description :: string

definition cluster_types :: "(int \<times> string) list" where
  "cluster_types =
     [(0, ''Premium Urban - High traffic, high income''),
      (1, ''Commercial Hub - Shopping centers, offices''),
      (2, ''Residential Area - Steady local traffic''),
      (3, ''Highway Corridor - Travel and transit focus''),
      (4, ''Developing Area - Growth potential'')]"

definition descriptions :: "(int \<times> string) list" where
  "descriptions =
     [(0, ''Excellent location with high EV adoption potential and premium pricing capability''),
      (1, ''Strong commercial traffic with good revenue potential during business hours''),
      (2, ''Consistent residential usage with potential for loyalty programs''),
      (3, ''High-volume transient traffic, ideal for fast charging stations''),
      (4, ''Emerging area with growth potential, lower initial returns but high future upside'')]"

text \<open>\<open>table.get(key, default)\<close> on a dictionary literal.\<close>

definition table_get :: "(int \<times> 'v) list \<Rightarrow> int \<Rightarrow> 'v \<Rightarrow> 'v" where
  "table_get tbl k dflt = (case map_of tbl k of None \<Rightarrow> dflt | Some v \<Rightarrow> v)"

definition get_cluster_description :: "int \<Rightarrow> string" where
  "get_cluster_description cid =
     table_get descriptions cid ''Standard location with balanced potential''"

text \<open>The result of the \<open>except\<close> branch of \<open>predict_location_cluster\<close>.\<close>

definition default_cluster :: cluster_result where
  "default_cluster = \<lparr> cluster_id = 2, cluster_name = ''Standard Commercial'',
                        description = ''Balanced location with moderate potential'' \<rparr>"

text \<open>
  The classifier call inside the \<open>try\<close>. A missing key raises \<open>KeyError\<close>; \<open>predict\<close>
  on a scikit-learn estimator that was never fitted raises \<open>NotFittedError\<close>.
\<close>

definition cluster_of :: "models \<Rightarrow> features \<Rightarrow> py_error + int" where
  "cluster_of m f =
     (case location_cluster m of
        None \<Rightarrow> Inl KeyError
      | Some UnfittedKMeans \<Rightarrow> Inl NotFittedError
      | Some (Pickled c) \<Rightarrow> c (feature_values f))"

definition predict_location_cluster :: "models \<Rightarrow> features \<Rightarrow> cluster_result" where
  "predict_location_cluster m f =
     (case cluster_of m f of
        Inl e \<Rightarrow> default_cluster
      | Inr cluster \<Rightarrow>
          \<lparr> cluster_id = cluster,
            cluster_name = table_get cluster_types cluster ''Unknown'',
            description = get_cluster_description cluster \<rparr>)"

section \<open>Recommendations, score, grade and risk\<close>

text \<open>
  Each constructor stands for one of the twelve fixed message strings of
  \<open>generate_station_recommendations\<close>, named after the bold part of its text.
\<close>

datatype recommendation =
    PremiumInvestment | StrongInvestment | ModerateInvestment | EvaluateCarefully
  | InstallDCFastChargers | AddLoungeAmenities
  | PartnerWithRetailers | FocusOnBusinessHours
  | UltraFastCharging | AddFoodServices
  | AddSolarCanopy | CommunityEducation

definition generate_station_recommendations ::
  "roi_result \<Rightarrow> cluster_result \<Rightarrow> location \<Rightarrow> py_error + recommendation list" where
  "generate_station_recommendations roi_prediction cluster_prediction location_data =
     (let roi = annual_roi roi_prediction;
          r1 = (if flt (Number 25) roi then [PremiumInvestment]
                else if flt (Number 15) roi then [StrongInvestment]
                else if flt (Number 8) roi then [ModerateInvestment]
                else [EvaluateCarefully]);
          cid = cluster_id cluster_prediction;
          r2 = (if cid = 0 then r1 @ [InstallDCFastChargers, AddLoungeAmenities]
                else if cid = 1 then r1 @ [PartnerWithRetailers, FocusOnBusinessHours]
                else if cid = 3 then r1 @ [UltraFastCharging, AddFoodServices]
                else r1)
      in bind_result (py_gt (dict_get location_data ''solar_potential'' (PNum 0)) 70) (\<lambda>sunny.
           (let r3 = (if sunny then r2 @ [AddSolarCanopy] else r2)
            in bind_result (py_lt (dict_get location_data ''ev_adoption'' (PNum 0)) 10) (\<lambda>few.
                 Inr (if few then r3 @ [CommunityEducation] else r3)))))"

definition cluster_scores :: "(int \<times> real) list" where
  "cluster_scores = [(0, 45), (1, 40), (2, 30), (3, 35), (4, 25)]"

definition calculate_viability_score :: "roi_result \<Rightarrow> cluster_result \<Rightarrow> pyfloat" where
  "calculate_viability_score roi_prediction cluster_prediction =
     (let roi_score = py_min (fmul (annual_roi roi_prediction) 2) (Number 50);
          cluster_score = table_get cluster_scores (cluster_id cluster_prediction) 20
      in py_min (fadd roi_score cluster_score) (Number 100))"

definition get_investment_grade :: "pyfloat \<Rightarrow> string" where
  "get_investment_grade roi =
     (if fle (Number 25) roi then ''A+ (Excellent)''
      else if fle (Number 20) roi then ''A (Very Good)''
      else if fle (Number 15) roi then ''B+ (Good)''
      else if fle (Number 10) roi then ''B (Average)''
      else if fle (Number 5) roi then ''C (Fair)''
      else ''D (Poor)'')"

definition get_risk_level :: "pyfloat \<Rightarrow> string" where
  "get_risk_level roi =
     (if fle (Number 20) roi then ''Low Risk''
      else if fle (Number 12) roi then ''Moderate Risk''
      else if fle (Number 8) roi then ''High Risk''
      else ''Very High Risk'')"

section \<open>The pipeline (\<open>predict_ev_station_viability\<close>)\<close>

text \<open>
  The result dictionary of a successful call; the nested \<open>predictions\<close> dictionary is
  the pair of fields \<open>roi\<close> and \<open>location_type\<close>. A call that raises anywhere returns
  \<open>{'error': str(e)}\<close> instead, modelled as \<open>Inl e\<close>.
\<close>

record prediction =
  roi :: roi_result
  location_type :: cluster_result
  recommendations :: "recommendation list"
  viability_score :: pyfloat
  investment_grade :: string
  risk_level :: string

definition predict_ev_station_viability :: "models \<Rightarrow> location \<Rightarrow> py_error + prediction" where
  "predict_ev_station_viability m location_data =
     bind_result (prepare_ev_features location_data) (\<lambda>f.
       (let roi_prediction = predict_roi m f location_data;
            cluster_prediction = predict_location_cluster m f
        in bind_result
             (generate_station_recommendations roi_prediction cluster_prediction location_data)
             (\<lambda>recs.
                Inr \<lparr> roi = roi_prediction,
                      location_type = cluster_prediction,
                      recommendations = recs,
                      viability_score = calculate_viability_score roi_prediction cluster_prediction,
                      investment_grade = get_investment_grade (annual_roi roi_prediction),
                      risk_level = get_risk_level (annual_roi roi_prediction) \<rparr>)))"

section \<open>Validation in the \<open>/predict\<close> endpoint of app.py\<close>

text \<open>
  \<open>predict_ev_station\<close> computes the required fields that are not keys of the record
  and answers 400 when the list is not empty. \<open>batch_analyze\<close> has no such check.
\<close>

definition required_fields :: "string list" where
  "required_fields = [''daily_vehicles'', ''population_density'', ''avg_income'']"

definition missing_fields :: "location \<Rightarrow> string list" where
  "missing_fields location_data = filter (\<lambda>field. location_data field = None) required_fields"

section \<open>Batch analysis (\<open>batch_analyze\<close> in app.py)\<close>

text \<open>
  An element of the \<open>locations\<close> array is a JSON object or some other JSON value; only
  an object has \<open>.get\<close>.
\<close>

datatype item = JObject location | JOther

text \<open>Decimal rendering of the index in \<open>f'Location_{i}'\<close>.\<close>

fun str_nat :: "nat \<Rightarrow> string" where
  "str_nat n =
     (if n < 10 then [''0123456789'' ! n]
      else str_nat (n div 10) @ [''0123456789'' ! (n mod 10)])"

declare str_nat.simps [simp del]

text \<open>
  One element of \<open>results\<close>: the dictionary returned by the pipeline (with an \<open>error\<close>
  key exactly when \<open>outcome\<close> is \<open>Inl\<close>), extended by \<open>location_index\<close> and
  \<open>location_name\<close>.
\<close>

record entry =
  outcome :: "py_error + prediction"
  location_index :: nat
  location_name :: pyval

definition has_error :: "entry \<Rightarrow> bool" where
  "has_error r = isl (outcome r)"

text \<open>
  The loop over \<open>enumerate(data['locations'])\<close>. The pipeline catches its own exceptions,
  so for a JSON object the inner \<open>except\<close> is never entered. For any other value the
  pipeline returns an error dictionary, \<open>location.get\<close> then raises \<open>AttributeError\<close>
  in the \<open>try\<close> and again in the handler, and the exception leaves the loop.
\<close>

fun batch_loop :: "models \<Rightarrow> nat \<Rightarrow> item list \<Rightarrow> entry list \<Rightarrow> py_error + entry list" where
  "batch_loop m i [] results = Inr results"
| "batch_loop m i (JOther # rest) results = Inl AttributeError"
| "batch_loop m i (JObject location # rest) results =
     batch_loop m (Suc i) rest
       (results @
          [\<lparr> outcome = predict_ev_station_viability m location,
             location_index = i,
             location_name = dict_get location ''location_name'' (PStr (''Location_'' @ str_nat i)) \<rparr>])"

record batch_response =
  total_locations :: nat
  successful_analysis :: nat
  results :: "entry list"

datatype http_response = Ok200 batch_response | BadRequest400 | ServerError500

text \<open>
  \<open>ev_predictor\<close> is \<open>None\<close> when the constructor raised. The request body is \<open>None\<close>
  when it is empty or has no \<open>locations\<close> key, else the \<open>locations\<close> array. The
  \<open>batch_id\<close> and \<open>timestamp\<close> fields (wall-clock time) are left out.
\<close>

definition batch_analyze :: "models option \<Rightarrow> item list option \<Rightarrow> http_response" where
  "batch_analyze ev_predictor data =
     (case ev_predictor of
        None \<Rightarrow> ServerError500
      | Some m \<Rightarrow>
          (case data of
             None \<Rightarrow> BadRequest400
           | Some locations \<Rightarrow>
               (case batch_loop m 0 locations [] of
                  Inl e \<Rightarrow> ServerError500
                | Inr rs \<Rightarrow>
                    Ok200 \<lparr> total_locations = length locations,
                            successful_analysis = length (filter (\<lambda>r. \<not> has_error r) rs),
                            results = rs \<rparr>)))"

section \<open>Concrete inputs\<close>

text \<open>The sample record served by the \<open>/sample\<close> endpoint of app.py.\<close>

definition sample_data :: "(string \<times> pyval) list" where
  "sample_data =
     [(''location_name'', PStr ''Downtown Business District''),
      (''daily_vehicles'', PNum 15000),
      (''population_density'', PNum 8500),
      (''avg_income'', PNum 85000),
      (''commercial_score'', PNum 85),
      (''residential_score'', PNum 60),
      (''industrial_score'', PNum 20),
      (''highway_distance'', PNum (5 / 2)),
      (''mall_distance'', PNum (1 / 2)),
      (''office_distance'', PNum (1 / 5)),
      (''ev_adoption'', PNum 15),
      (''solar_potential'', PNum 75),
      (''land_cost'', PNum 500000),
      (''electricity_rate'', PNum (12 / 100)),
      (''subsidy_available'', PNum 30),
      (''competition'', PNum 2),
      (''fast_charging'', PBool True),
      (''solar_powered'', PBool True),
      (''amenities'', PBool True),
      (''high_competition'', PBool False),
      (''high_land_cost'', PBool False)]"

text \<open>A classifier that answers the same id for every input, and a regressor likewise.\<close>

definition constant_classifier :: "int \<Rightarrow> pyval list \<Rightarrow> py_error + int" where
  "constant_classifier k xs = Inr k"

definition constant_regressor :: "pyfloat \<Rightarrow> pyval list \<Rightarrow> py_error + pyfloat" where
  "constant_regressor r xs = Inr r"

text \<open>The feature dictionary that \<open>prepare_ev_features\<close> builds from the sample record.\<close>

definition sample_features :: features where
  "sample_features =
     \<lparr> traffic_density = PNum 15,
       population_density = PNum 8500,
       income_level = PNum 85,
       commercial_score = PNum 85,
       residential_score = PNum 60,
       industrial_score = PNum 20,
       proximity_highway = PNum (5 / 2),
       proximity_mall = PNum (1 / 2),
       proximity_office = PNum (1 / 5),
       ev_adoption_rate = PNum 15,
       solar_potential = PNum 75,
       land_cost = PNum 5,
       electricity_cost = PNum (12 / 100),
       government_subsidy = PNum 30,
       competition_score = PNum 2 \<rparr>"

text \<open>A record without one of its keys.\<close>

definition without_key :: "string \<Rightarrow> (string \<times> pyval) list \<Rightarrow> (string \<times> pyval) list" where
  "without_key k kvs = filter (\<lambda>kv. fst kv \<noteq> k) kvs"

text \<open>The three-item batch whose second record lacks \<open>avg_income\<close>.\<close>

definition batch_missing_income :: "item list" where
  "batch_missing_income =
     [JObject (map_of sample_data),
      JObject (map_of (without_key ''avg_income'' sample_data)),
      JObject (map_of sample_data)]"

section \<open>The fallback ROI formula\<close>

lemma fallback_roi_numeric:
  assumes "as_num (traffic_density f) = Some t"
    and "as_num (income_level f) = Some i"
    and "as_num (ev_adoption_rate f) = Some a"
    and "as_num (competition_score f) = Some c"
    and "as_num (government_subsidy f) = Some s"
  shows "calculate_fallback_roi f =
           Inr (min (12 + (if t > 5 then 3 else 0) + (if i > 75 then 2 else 0)
                        + (if a > 20 then 4 else 0) + (if c < 3 then 2 else 0)
                        + (if s > 0 then 3 else 0)) 35)"
  using assms
  by (simp add: calculate_fallback_roi_def bind_result_def py_gt_def py_lt_def Let_def)

text \<open>
  Claim C1. On a feature vector whose five tested features are numbers, the fallback
  base ROI is 12 plus 3 when traffic density exceeds 5, plus 2 when income level exceeds
  75, plus 4 when the EV adoption rate exceeds 20, plus 2 when the competition score is
  below 3, plus 3 when the government subsidy is positive, capped at 35; it lies between
  12 and 35.
\<close>

theorem calculate_fallback_roi_formula:
  assumes "as_num (traffic_density f) = Some t"
    and "as_num (income_level f) = Some i"
    and "as_num (ev_adoption_rate f) = Some a"
    and "as_num (competition_score f) = Some c"
    and "as_num (government_subsidy f) = Some s"
  shows "\<exists>b. calculate_fallback_roi f = Inr b
           \<and> b = min (12 + (if t > 5 then 3 else 0) + (if i > 75 then 2 else 0)
                        + (if a > 20 then 4 else 0) + (if c < 3 then 2 else 0)
                        + (if s > 0 then 3 else 0)) 35
           \<and> 12 \<le> b \<and> b \<le> 35"
  using fallback_roi_numeric [OF assms] by simp

theorem calculate_fallback_roi_formula_witness:
  "as_num (traffic_density sample_features) = Some 15
   \<and> as_num (income_level sample_features) = Some 85
   \<and> as_num (ev_adoption_rate sample_features) = Some 15
   \<and> as_num (competition_score sample_features) = Some 2
   \<and> as_num (government_subsidy sample_features) = Some 30
   \<and> calculate_fallback_roi sample_features = Inr 22"
  using calculate_fallback_roi_formula [of sample_features 15 85 15 2 30]
  by (simp add: sample_features_def)

text \<open>Whatever the features hold, a base ROI that the fallback returns is at most 26.\<close>

lemma fallback_roi_range: "calculate_fallback_roi f = Inr b \<Longrightarrow> 12 \<le> b \<and> b \<le> 26"
  by (auto simp add: calculate_fallback_roi_def bind_result_def py_gt_def py_lt_def Let_def
      split: option.splits if_splits)

section \<open>The adjustment stage\<close>

lemma py_max_Number: "py_max (Number x) (Number y) = Number (max x y)"
  by (simp add: py_max_def max_def)


lemma adjust_roi_Number:
  "adjust_roi (Number base_roi) location_data =
     Number (max (base_roi
          + (if truthy (dict_get location_data ''fast_charging'' (PBool False)) then 5 else 0)
          + (if truthy (dict_get location_data ''solar_powered'' (PBool False)) then 3 else 0)
          + (if truthy (dict_get location_data ''amenities'' (PBool False)) then 2 else 0)
          - (if truthy (dict_get location_data ''high_competition'' (PBool False)) then 4 else 0)
          - (if truthy (dict_get location_data ''high_land_cost'' (PBool False)) then 3 else 0)) 5)"
  by (simp add: adjust_roi_def Let_def py_max_Number add.commute)

text \<open>On the special values the additions change nothing and only the floor acts.\<close>

lemma adjust_roi_PosInf: "adjust_roi PosInf location_data = PosInf"
  by (simp add: adjust_roi_def Let_def py_max_def)

lemma adjust_roi_NegInf: "adjust_roi NegInf location_data = Number 5"
  by (simp add: adjust_roi_def Let_def py_max_def)

lemma adjust_roi_NaN: "adjust_roi NaN location_data = NaN"
  by (simp add: adjust_roi_def Let_def py_max_def)

lemma adjust_roi_floor: "x \<noteq> NaN \<Longrightarrow> fle (Number 5) (adjust_roi x location_data)"
  by (cases x) (simp_all add: adjust_roi_Number adjust_roi_PosInf adjust_roi_NegInf)

lemma adjust_roi_not_below: "\<not> flt (adjust_roi x location_data) (Number 5)"
  by (cases x)
     (simp_all add: adjust_roi_Number adjust_roi_PosInf adjust_roi_NegInf adjust_roi_NaN)

text \<open>
  Claim C3. The adjustment reads the flags of the raw record (a missing flag counts as
  false, a JSON boolean as itself): on a numeric base ROI it adds 5 for fast charging, 3
  for solar power, 2 for amenities, takes off 4 for high competition and 3 for high land
  cost, and floors the result at 5, so the adjusted ROI is at least 5. Whatever float the
  base ROI is, the adjusted ROI is never below 5.
\<close>

theorem adjust_roi_formula:
  "adjust_roi (Number base_roi) location_data =
     Number (max (base_roi
          + (if truthy (dict_get location_data ''fast_charging'' (PBool False)) then 5 else 0)
          + (if truthy (dict_get location_data ''solar_powered'' (PBool False)) then 3 else 0)
          + (if truthy (dict_get location_data ''amenities'' (PBool False)) then 2 else 0)
          - (if truthy (dict_get location_data ''high_competition'' (PBool False)) then 4 else 0)
          - (if truthy (dict_get location_data ''high_land_cost'' (PBool False)) then 3 else 0)) 5)
   \<and> fle (Number 5) (adjust_roi (Number base_roi) location_data)
   \<and> \<not> flt (adjust_roi x location_data) (Number 5)"
  using adjust_roi_floor [of "Number base_roi" location_data]
  by (simp add: adjust_roi_Number adjust_roi_not_below)

section \<open>Results of \<open>predict_roi\<close>\<close>

lemma predict_roi_unfold:
  "predict_roi m f loc =
     (case base_roi_of m f of
        Inl e \<Rightarrow> default_roi
      | Inr b \<Rightarrow>
          (case calculate_payback_period (adjust_roi b loc) of
             Inl e \<Rightarrow> default_roi
           | Inr payback \<Rightarrow>
               (case calculate_break_even (adjust_roi b loc) of
                  Inl e \<Rightarrow> default_roi
                | Inr break_even \<Rightarrow>
                    (case estimate_revenue loc of
                       Inl e \<Rightarrow> default_roi
                     | Inr revenue \<Rightarrow>
                         \<lparr> annual_roi = adjust_roi b loc,
                           payback_period = payback,
                           break_even_months = break_even,
                           estimated_annual_revenue = revenue \<rparr>))))"
  by (simp add: predict_roi_def bind_result_def Let_def split: sum.splits)

lemma predict_roi_cases:
  "predict_roi m f loc = default_roi
   \<or> (\<exists>b. base_roi_of m f = Inr b
          \<and> annual_roi (predict_roi m f loc) = adjust_roi b loc
          \<and> calculate_payback_period (adjust_roi b loc)
              = Inr (payback_period (predict_roi m f loc)))"
  by (auto simp add: predict_roi_unfold split: sum.splits)

lemma predict_roi_floor:
  assumes "annual_roi (predict_roi m f loc) \<noteq> NaN"
  shows "fle (Number 5) (annual_roi (predict_roi m f loc))"
proof (rule disjE [OF predict_roi_cases [of m f loc]])
  assume "predict_roi m f loc = default_roi"
  then show ?thesis by (simp add: default_roi_def)
next
  assume "\<exists>b. base_roi_of m f = Inr b
          \<and> annual_roi (predict_roi m f loc) = adjust_roi b loc
          \<and> calculate_payback_period (adjust_roi b loc)
              = Inr (payback_period (predict_roi m f loc))"
  then obtain b where b: "annual_roi (predict_roi m f loc) = adjust_roi b loc" by blast
  with assms have "b \<noteq> NaN" by (auto simp add: adjust_roi_NaN)
  from adjust_roi_floor [OF this] b show ?thesis by simp
qed

lemma predict_roi_not_nan:
  assumes "base_roi_of m f \<noteq> Inr NaN"
  shows "annual_roi (predict_roi m f loc) \<noteq> NaN"
proof (rule disjE [OF predict_roi_cases [of m f loc]])
  assume "predict_roi m f loc = default_roi"
  then show ?thesis by (simp add: default_roi_def)
next
  assume "\<exists>b. base_roi_of m f = Inr b
          \<and> annual_roi (predict_roi m f loc) = adjust_roi b loc
          \<and> calculate_payback_period (adjust_roi b loc)
              = Inr (payback_period (predict_roi m f loc))"
  then obtain b where b: "base_roi_of m f = Inr b"
    "annual_roi (predict_roi m f loc) = adjust_roi b loc" by blast
  with assms have "b \<noteq> NaN" by auto
  from adjust_roi_floor [OF this, of loc] b(2) show ?thesis by auto
qed

section \<open>The sample record, and the registry after startup\<close>

lemma prepare_sample: "prepare_ev_features (map_of sample_data) = Inr sample_features"
  by (simp add: prepare_ev_features_def sample_data_def sample_features_def bind_result_def
      py_div_def dict_get_def)

lemma estimate_revenue_sample: "\<exists>revenue. estimate_revenue (map_of sample_data) = Inr revenue"
  by (simp add: estimate_revenue_def sample_data_def bind_result_def py_div_def dict_get_def
      Let_def)

lemma adjust_sample: "adjust_roi (Number 22) (map_of sample_data) = Number 32"
  by (simp add: adjust_roi_Number sample_data_def dict_get_def)

lemma fallback_sample: "calculate_fallback_roi sample_features = Inr 22"
  using fallback_roi_numeric [of sample_features 15 85 15 2 30]
  by (simp add: sample_features_def)

lemma load_unloadable_roi:
  "roi_predictor (load_essential_models Unloadable c) = Some FallbackMarker"
  by (cases c) (simp_all add: load_essential_models_def load_roi_model_def load_cluster_model_def
      create_fallback_roi_model_def create_fallback_cluster_model_def)

lemma load_absent_roi: "roi_predictor (load_essential_models Absent c) = None"
  by (cases c) (simp_all add: load_essential_models_def load_roi_model_def load_cluster_model_def
      create_fallback_cluster_model_def)

lemma load_loadable_roi: "roi_predictor (load_essential_models (Loadable b) c) = Some (Booster b)"
  by (cases c) (simp_all add: load_essential_models_def load_roi_model_def load_cluster_model_def
      create_fallback_cluster_model_def)

lemma load_unloadable_cluster:
  "location_cluster (load_essential_models r Unloadable) = Some UnfittedKMeans"
  by (simp add: load_essential_models_def load_cluster_model_def create_fallback_cluster_model_def)

lemma load_absent_cluster: "location_cluster (load_essential_models r Absent) = None"
  by (cases r) (simp_all add: load_essential_models_def load_roi_model_def load_cluster_model_def
      create_fallback_roi_model_def)

lemma load_loadable_cluster:
  "location_cluster (load_essential_models r (Loadable c)) = Some (Pickled c)"
  by (simp add: load_essential_models_def load_cluster_model_def)

lemma predict_roi_sample_fallback:
  "annual_roi (predict_roi (load_essential_models Unloadable c) sample_features
      (map_of sample_data)) = Number 32
   \<and> payback_period (predict_roi (load_essential_models Unloadable c) sample_features
      (map_of sample_data)) = Number (25 / 8)"
proof -
  from estimate_revenue_sample obtain revenue where
    "estimate_revenue (map_of sample_data) = Inr revenue" by blast
  then show ?thesis
    by (simp add: predict_roi_unfold base_roi_of_def load_unloadable_roi fallback_sample
        bind_result_def adjust_sample calculate_payback_period_def calculate_break_even_def)
qed

lemma predict_roi_absent:
  "predict_roi (load_essential_models Absent c) f loc = default_roi"
  by (simp add: predict_roi_unfold base_roi_of_def load_absent_roi)

lemma predict_roi_sample_nan:
  "annual_roi (predict_roi (load_essential_models (Loadable (constant_regressor NaN)) c)
      sample_features (map_of sample_data)) = NaN
   \<and> payback_period (predict_roi (load_essential_models (Loadable (constant_regressor NaN)) c)
      sample_features (map_of sample_data)) = NaN"
proof -
  from estimate_revenue_sample obtain revenue where
    "estimate_revenue (map_of sample_data) = Inr revenue" by blast
  then show ?thesis
    by (simp add: predict_roi_unfold base_roi_of_def load_loadable_roi constant_regressor_def
        bind_result_def adjust_roi_NaN calculate_payback_period_def calculate_break_even_def)
qed

lemma predict_succeeds:
  assumes "prepare_ev_features loc = Inr f"
    and "as_num (dict_get loc ''solar_potential'' (PNum 0)) = Some s"
    and "as_num (dict_get loc ''ev_adoption'' (PNum 0)) = Some a"
  shows "\<exists>p. predict_ev_station_viability m loc = Inr p"
  using assms
  by (simp add: predict_ev_station_viability_def generate_station_recommendations_def
      bind_result_def Let_def py_gt_def py_lt_def)

lemma predict_sample_succeeds: "\<exists>p. predict_ev_station_viability m (map_of sample_data) = Inr p"
  by (rule predict_succeeds [OF prepare_sample, of 75 15])
     (simp_all add: dict_get_def sample_data_def)

lemma cluster_unfitted:
  "location_cluster m = Some UnfittedKMeans \<Longrightarrow> predict_location_cluster m f = default_cluster"
  by (simp add: predict_location_cluster_def cluster_of_def)

section \<open>The batch loop\<close>

lemma batch_loop_length:
  "batch_loop m i locs acc = Inr rs \<Longrightarrow> length rs = length acc + length locs"
  by (induction m i locs acc rule: batch_loop.induct) auto

lemma batch_loop_records:
  "\<forall>x\<in>set locs. x \<noteq> JOther \<Longrightarrow> \<exists>rs. batch_loop m i locs acc = Inr rs"
  by (induction m i locs acc rule: batch_loop.induct) auto

lemma batch_loop_shape:
  "batch_loop m i locs acc = Inr rs \<Longrightarrow>
     \<exists>ys. rs = acc @ ys \<and> length ys = length locs
          \<and> (\<forall>k < length locs. location_index (ys ! k) = i + k)"
proof (induction m i locs acc rule: batch_loop.induct)
  case (1 m i results)
  then show ?case by simp
next
  case (2 m i rest results)
  then show ?case by simp
next
  case (3 m i location rest results)
  define e where "e = \<lparr> outcome = predict_ev_station_viability m location, location_index = i,
      location_name = dict_get location ''location_name'' (PStr (''Location_'' @ str_nat i)) \<rparr>"
  from "3.prems" have run: "batch_loop m (Suc i) rest (results @ [e]) = Inr rs"
    by (simp add: e_def)
  from "3.IH" [folded e_def, OF run] obtain ys where
    ys: "rs = (results @ [e]) @ ys" "length ys = length rest"
        "\<forall>k < length rest. location_index (ys ! k) = Suc i + k"
    by blast
  have idx: "location_index e = i" by (simp add: e_def)
  have "\<forall>k < length (JObject location # rest). location_index ((e # ys) ! k) = i + k"
  proof (intro allI impI)
    fix k assume "k < length (JObject location # rest)"
    then show "location_index ((e # ys) ! k) = i + k"
      using ys(3) idx by (cases k) simp_all
  qed
  moreover have "rs = results @ (e # ys)" using ys(1) by simp
  moreover have "length (e # ys) = length (JObject location # rest)" using ys(2) by simp
  ultimately show ?case by blast
qed

text \<open>
  Claim C5. Whenever the batch endpoint answers with a batch result, the result list has
  one entry per location, in order (entry \<open>k\<close> carries \<open>location_index = k\<close>),
  \<open>total_locations\<close> is the number of locations, and \<open>successful_analysis\<close> is the
  number of entries without an \<open>error\<close> key. It answers so for every batch whose
  locations are all JSON objects.
\<close>

theorem batch_invariant:
  "(batch_analyze ev_predictor (Some locations) = Ok200 r \<longrightarrow>
      length (results r) = length locations
      \<and> total_locations r = length locations
      \<and> successful_analysis r = length (filter (\<lambda>e. \<not> has_error e) (results r))
      \<and> (\<forall>k < length locations. location_index (results r ! k) = k))
   \<and> ((\<forall>x\<in>set locations. x \<noteq> JOther) \<longrightarrow>
        (\<exists>r. batch_analyze (Some m) (Some locations) = Ok200 r))"
proof (intro conjI impI)
  assume ok: "batch_analyze ev_predictor (Some locations) = Ok200 r"
  then obtain m' rs where run: "batch_loop m' 0 locations [] = Inr rs"
    and r: "r = \<lparr> total_locations = length locations,
                  successful_analysis = length (filter (\<lambda>r. \<not> has_error r) rs),
                  results = rs \<rparr>"
    by (auto simp add: batch_analyze_def split: option.splits sum.splits)
  from batch_loop_shape [OF run] have len: "length rs = length locations"
    and idx: "\<forall>k < length locations. location_index (rs ! k) = k" by auto
  from len r show "length (results r) = length locations" by simp
  from r show "total_locations r = length locations" by simp
  from r show "successful_analysis r = length (filter (\<lambda>e. \<not> has_error e) (results r))" by simp
  from idx r show "\<forall>k < length locations. location_index (results r ! k) = k" by simp
next
  assume "\<forall>x\<in>set locations. x \<noteq> JOther"
  from batch_loop_records [OF this] obtain rs where "batch_loop m 0 locations [] = Inr rs"
    by blast
  then show "\<exists>r. batch_analyze (Some m) (Some locations) = Ok200 r"
    by (simp add: batch_analyze_def)
qed

section \<open>Payback period and cluster results\<close>

lemma payback_floor:
  assumes "fle (Number 5) a"
  shows "\<exists>years. calculate_payback_period a = Inr (Number years)
           \<and> py_rdiv 100 a = Inr (Number years) \<and> 0 \<le> years \<and> years \<le> 20"
proof (cases a)
  case (Number r)
  with assms have "5 \<le> r" by simp
  then have "calculate_payback_period (Number r) = Inr (Number (100 / r))"
    and "py_rdiv 100 (Number r) = Inr (Number (100 / r))"
    and "0 \<le> 100 / r" and "100 / r \<le> 20"
    by (simp_all add: calculate_payback_period_def field_simps)
  with Number show ?thesis by blast
next
  case PosInf
  then show ?thesis by (simp add: calculate_payback_period_def)
next
  case NegInf
  with assms show ?thesis by simp
next
  case NaN
  with assms show ?thesis by simp
qed

lemma adjusted_not_le_0: "\<not> fle (adjust_roi x location_data) (Number 0)"
  by (cases x)
     (simp_all add: adjust_roi_Number adjust_roi_PosInf adjust_roi_NegInf adjust_roi_NaN)

text \<open>
  Claim C10 as stated fails twice. A trained model that answers NaN passes the floor,
  since \<open>max(nan, 5)\<close> is NaN: the annual ROI is NaN, not at least 5, and so is the
  payback period. And on the error default the payback period is the constant 6.7, which
  is not 100 divided by the default ROI of 15.
\<close>

theorem roi_floor_counterexample:
  "annual_roi (predict_roi (load_essential_models (Loadable (constant_regressor NaN)) Absent)
      sample_features (map_of sample_data)) = NaN
   \<and> \<not> fle (Number 5)
        (annual_roi (predict_roi (load_essential_models (Loadable (constant_regressor NaN)) Absent)
           sample_features (map_of sample_data)))
   \<and> payback_period (predict_roi (load_essential_models (Loadable (constant_regressor NaN)) Absent)
      sample_features (map_of sample_data)) = NaN
   \<and> annual_roi (predict_roi (load_essential_models Absent Absent)
        sample_features (map_of sample_data)) = Number 15
   \<and> payback_period (predict_roi (load_essential_models Absent Absent)
        sample_features (map_of sample_data)) = Number (67 / 10)
   \<and> py_rdiv 100 (annual_roi (predict_roi (load_essential_models Absent Absent)
        sample_features (map_of sample_data)))
      \<noteq> Inr (payback_period (predict_roi (load_essential_models Absent Absent)
        sample_features (map_of sample_data)))"
  by (simp add: predict_roi_sample_nan predict_roi_absent default_roi_def)

text \<open>
  Claim C10, amended. Unless a trained model answers NaN, every result of
  \<open>predict_roi\<close> has an annual ROI of at least 5: the floor of the adjustment applies to
  the trained and to the fallback path, and the default of the error path is 15. Its
  payback period is then a number between 0 and 20 years, never infinite; outside the
  error default it is 100 divided by the annual ROI, and on the error default it is the
  constant 6.7. The test \<open>annual_roi <= 0\<close> of \<open>calculate_payback_period\<close> is false on
  every adjusted ROI, so its infinite branch is never taken from \<open>predict_roi\<close>.
\<close>

theorem roi_floor_and_payback:
  "(base_roi_of m f \<noteq> Inr NaN \<longrightarrow>
      fle (Number 5) (annual_roi (predict_roi m f location_data))
      \<and> (\<exists>years. payback_period (predict_roi m f location_data) = Number years
             \<and> 0 \<le> years \<and> years \<le> 20)
      \<and> payback_period (predict_roi m f location_data) \<noteq> PosInf
      \<and> (predict_roi m f location_data = default_roi
          \<or> py_rdiv 100 (annual_roi (predict_roi m f location_data))
              = Inr (payback_period (predict_roi m f location_data))))
   \<and> annual_roi default_roi = Number 15
   \<and> payback_period default_roi = Number (67 / 10)
   \<and> \<not> fle (adjust_roi x location_data) (Number 0)
   \<and> calculate_payback_period (adjust_roi x location_data)
       = py_rdiv 100 (adjust_roi x location_data)"
proof -
  let ?r = "predict_roi m f location_data"
  have main: "fle (Number 5) (annual_roi ?r)
      \<and> (\<exists>years. payback_period ?r = Number years \<and> 0 \<le> years \<and> years \<le> 20)
      \<and> payback_period ?r \<noteq> PosInf
      \<and> (?r = default_roi \<or> py_rdiv 100 (annual_roi ?r) = Inr (payback_period ?r))"
    if ok: "base_roi_of m f \<noteq> Inr NaN"
  proof -
    from predict_roi_floor [OF predict_roi_not_nan [OF ok]]
    have floor: "fle (Number 5) (annual_roi ?r)" .
    from payback_floor [OF floor] obtain years where
      y: "calculate_payback_period (annual_roi ?r) = Inr (Number years)"
         "py_rdiv 100 (annual_roi ?r) = Inr (Number years)" "0 \<le> years" "years \<le> 20"
      by blast
    have pay: "?r = default_roi \<or> payback_period ?r = Number years"
    proof (rule disjE [OF predict_roi_cases [of m f location_data]])
      assume "?r = default_roi"
      then show ?thesis by simp
    next
      assume "\<exists>b. base_roi_of m f = Inr b \<and> annual_roi ?r = adjust_roi b location_data
          \<and> calculate_payback_period (adjust_roi b location_data) = Inr (payback_period ?r)"
      then obtain b where "annual_roi ?r = adjust_roi b location_data"
        and "calculate_payback_period (adjust_roi b location_data) = Inr (payback_period ?r)"
        by blast
      with y(1) show ?thesis by simp
    qed
    have fin: "\<exists>years. payback_period ?r = Number years \<and> 0 \<le> years \<and> years \<le> 20"
    proof (rule disjE [OF pay])
      assume "?r = default_roi"
      then have "payback_period ?r = Number (67 / 10)" by (simp add: default_roi_def)
      moreover have "(0::real) \<le> 67 / 10 \<and> (67::real) / 10 \<le> 20" by simp
      ultimately show ?thesis by blast
    next
      assume "payback_period ?r = Number years"
      with y(3,4) show ?thesis by blast
    qed
    then have ninf: "payback_period ?r \<noteq> PosInf" by auto
    have eq: "?r = default_roi \<or> py_rdiv 100 (annual_roi ?r) = Inr (payback_period ?r)"
      using pay y(2) by auto
    from floor fin ninf eq show ?thesis by blast
  qed
  have d: "annual_roi default_roi = Number 15" "payback_period default_roi = Number (67 / 10)"
    by (simp_all add: default_roi_def)
  have br: "calculate_payback_period (adjust_roi x location_data)
       = py_rdiv 100 (adjust_roi x location_data)"
    using adjusted_not_le_0 [of x location_data] by (simp add: calculate_payback_period_def)
  from main d adjusted_not_le_0 [of x location_data] br show ?thesis by blast
qed

text \<open>The sample record with the ROI fallback registered: base 22, ROI 32, payback 3.125.\<close>

theorem roi_floor_and_payback_witness:
  "base_roi_of (load_essential_models Unloadable Absent) sample_features = Inr (Number 22)
   \<and> annual_roi (predict_roi (load_essential_models Unloadable Absent) sample_features
        (map_of sample_data)) = Number 32
   \<and> fle (Number 5) (annual_roi (predict_roi (load_essential_models Unloadable Absent)
        sample_features (map_of sample_data)))
   \<and> payback_period (predict_roi (load_essential_models Unloadable Absent) sample_features
        (map_of sample_data)) = Number (25 / 8)
   \<and> py_rdiv 100 (annual_roi (predict_roi (load_essential_models Unloadable Absent)
        sample_features (map_of sample_data)))
      = Inr (payback_period (predict_roi (load_essential_models Unloadable Absent)
        sample_features (map_of sample_data)))"
  using roi_floor_and_payback [of "load_essential_models Unloadable Absent" sample_features
          "map_of sample_data" "Number 22"]
  by (simp add: base_roi_of_def load_unloadable_roi fallback_sample bind_result_def
      predict_roi_sample_fallback)

text \<open>
  Claim C9. With the clustering fallback registered (the KMeans object that is never
  fitted), \<open>predict_location_cluster\<close> returns the default result for every feature
  vector: id 2, name Standard Commercial and the generic description.
\<close>

theorem unfitted_kmeans_default:
  "predict_location_cluster (create_fallback_cluster_model m) f =
     \<lparr> cluster_id = 2, cluster_name = ''Standard Commercial'',
       description = ''Balanced location with moderate potential'' \<rparr>
   \<and> predict_location_cluster (load_essential_models xgb_file Unloadable) f =
     \<lparr> cluster_id = 2, cluster_name = ''Standard Commercial'',
       description = ''Balanced location with moderate potential'' \<rparr>"
  by (simp add: cluster_unfitted load_unloadable_cluster default_cluster_def
      create_fallback_cluster_model_def)

lemma table_get_cluster_types:
  "table_get cluster_types k ''Unknown'' =
     (if k = 0 then ''Premium Urban - High traffic, high income''
      else if k = 1 then ''Commercial Hub - Shopping centers, offices''
      else if k = 2 then ''Residential Area - Steady local traffic''
      else if k = 3 then ''Highway Corridor - Travel and transit focus''
      else if k = 4 then ''Developing Area - Growth potential''
      else ''Unknown'')"
  by (simp add: table_get_def cluster_types_def)

lemma get_cluster_description_unfold:
  "get_cluster_description k =
     (if k = 0 then ''Excellent location with high EV adoption potential and premium pricing capability''
      else if k = 1 then ''Strong commercial traffic with good revenue potential during business hours''
      else if k = 2 then ''Consistent residential usage with potential for loyalty programs''
      else if k = 3 then ''High-volume transient traffic, ideal for fast charging stations''
      else if k = 4 then ''Emerging area with growth potential, lower initial returns but high future upside''
      else ''Standard location with balanced potential'')"
  by (simp add: get_cluster_description_def table_get_def descriptions_def)

text \<open>
  Claim C7 as stated fails: a loaded classifier that answers id 7 puts 7, outside 0..4,
  into the result.
\<close>

theorem cluster_counterexample:
  "cluster_id (predict_location_cluster
      (load_essential_models Absent (Loadable (constant_classifier 7))) sample_features)
     \<notin> {0, 1, 2, 3, 4}"
  by (simp add: predict_location_cluster_def cluster_of_def load_loadable_cluster
      constant_classifier_def)

text \<open>
  Claim C7, amended. The result carries the id that the classifier returned, whatever
  integer it is, or the default id 2 with the default name and description when the
  classifier is missing, unfitted or raises. The id always comes with a non-empty name
  and description: the table entries for 0..4, and the generic name Unknown with the
  generic description for any other id.
\<close>

theorem cluster_result_resolved:
  "(cluster_of m f = Inr k \<longrightarrow>
      cluster_id (predict_location_cluster m f) = k
      \<and> cluster_name (predict_location_cluster m f) = table_get cluster_types k ''Unknown''
      \<and> description (predict_location_cluster m f) = get_cluster_description k
      \<and> (k \<notin> {0, 1, 2, 3, 4} \<longrightarrow>
           cluster_name (predict_location_cluster m f) = ''Unknown''
           \<and> description (predict_location_cluster m f)
               = ''Standard location with balanced potential''))
   \<and> (cluster_of m f = Inl e \<longrightarrow> predict_location_cluster m f = default_cluster)
   \<and> (cluster_id (predict_location_cluster m f) \<in> {0, 1, 2, 3, 4}
        \<or> cluster_name (predict_location_cluster m f) = ''Unknown'')
   \<and> cluster_name (predict_location_cluster m f) \<noteq> []
   \<and> description (predict_location_cluster m f) \<noteq> []"
  by (cases "cluster_of m f")
     (simp_all add: predict_location_cluster_def default_cluster_def table_get_cluster_types
       get_cluster_description_unfold)

section \<open>Monotone steps\<close>

lemma dict_get_upd:
  "dict_get (loc(k \<mapsto> v)) k' d = (if k' = k then v else dict_get loc k' d)"
  by (simp add: dict_get_def)

text \<open>
  Claim C8 as stated fails for the adjustment: with base ROI 0 and no other flag, both
  the record with and the record without fast charging are floored to 5.
\<close>

theorem fast_charging_counterexample:
  "adjust_roi (Number 0) (map_of [(''fast_charging'', PBool True)])
     \<noteq> fadd (adjust_roi (Number 0) (map_of [(''fast_charging'', PBool False)])) 5"
  by (simp add: adjust_roi_Number dict_get_def)

lemma fallback_Inr_numeric:
  "calculate_fallback_roi f = Inr x \<Longrightarrow>
     \<exists>t i a c s. as_num (traffic_density f) = Some t \<and> as_num (income_level f) = Some i
        \<and> as_num (ev_adoption_rate f) = Some a \<and> as_num (competition_score f) = Some c
        \<and> as_num (government_subsidy f) = Some s"
  by (simp add: calculate_fallback_roi_def bind_result_def py_gt_def py_lt_def
      split: option.splits)

lemma ev_step:
  assumes "calculate_fallback_roi f = Inr x"
    and "as_num (ev_adoption_rate f) = Some a" and "a \<le> 20" and "20 < a'"
  shows "calculate_fallback_roi (f\<lparr>ev_adoption_rate := PNum a'\<rparr>) = Inr (x + 4)"
proof -
  from fallback_Inr_numeric [OF assms(1)] assms(2) obtain t i c s where
    n: "as_num (traffic_density f) = Some t" "as_num (income_level f) = Some i"
       "as_num (competition_score f) = Some c" "as_num (government_subsidy f) = Some s"
    by auto
  have old: "calculate_fallback_roi f =
           Inr (min (12 + (if t > 5 then 3 else 0) + (if i > 75 then 2 else 0)
                        + (if a > 20 then 4 else 0) + (if c < 3 then 2 else 0)
                        + (if s > 0 then 3 else 0)) 35)"
    by (rule fallback_roi_numeric) (simp_all add: n assms(2))
  have new: "calculate_fallback_roi (f\<lparr>ev_adoption_rate := PNum a'\<rparr>) =
           Inr (min (12 + (if t > 5 then 3 else 0) + (if i > 75 then 2 else 0)
                        + (if a' > 20 then 4 else 0) + (if c < 3 then 2 else 0)
                        + (if s > 0 then 3 else 0)) 35)"
    by (rule fallback_roi_numeric) (simp_all add: n)
  from old assms(1) have x: "x = min (12 + (if t > 5 then 3 else 0) + (if i > 75 then 2 else 0)
                        + (if a > 20 then 4 else 0) + (if c < 3 then 2 else 0)
                        + (if s > 0 then 3 else 0)) 35" by simp
  show ?thesis unfolding new x using assms(3,4) by (simp add: min_def)
qed

lemma fast_step:
  assumes "\<not> truthy (dict_get loc ''fast_charging'' (PBool False))" and "truthy v"
  shows "adjust_roi (Number base) (loc(''fast_charging'' \<mapsto> v)) =
           Number (max (base + 5
                + (if truthy (dict_get loc ''solar_powered'' (PBool False)) then 3 else 0)
                + (if truthy (dict_get loc ''amenities'' (PBool False)) then 2 else 0)
                - (if truthy (dict_get loc ''high_competition'' (PBool False)) then 4 else 0)
                - (if truthy (dict_get loc ''high_land_cost'' (PBool False)) then 3 else 0)) 5)
         \<and> adjust_roi (Number base) loc =
           Number (max (base
                + (if truthy (dict_get loc ''solar_powered'' (PBool False)) then 3 else 0)
                + (if truthy (dict_get loc ''amenities'' (PBool False)) then 2 else 0)
                - (if truthy (dict_get loc ''high_competition'' (PBool False)) then 4 else 0)
                - (if truthy (dict_get loc ''high_land_cost'' (PBool False)) then 3 else 0)) 5)"
  using assms by (simp add: adjust_roi_Number dict_get_upd)

text \<open>
  Claim C8, amended. Raising the EV adoption feature from a value of at most 20 to a value
  above 20 raises the fallback base ROI by exactly 4. Enabling \<open>fast_charging\<close> raises
  the adjusted ROI by exactly 5 whenever the base ROI plus the other adjustments is at
  least 5, which holds for every base ROI of the fallback formula; in general, on a
  numeric base ROI, the adjusted ROI rises by at least 0 and at most 5.
\<close>

theorem monotone_steps:
  "(calculate_fallback_roi f = Inr x \<and> as_num (ev_adoption_rate f) = Some a
      \<and> a \<le> 20 \<and> 20 < a'
      \<longrightarrow> calculate_fallback_roi (f\<lparr>ev_adoption_rate := PNum a'\<rparr>) = Inr (x + 4))
   \<and> (\<not> truthy (dict_get loc ''fast_charging'' (PBool False)) \<and> truthy v
        \<and> 5 \<le> base_roi
                + (if truthy (dict_get loc ''solar_powered'' (PBool False)) then 3 else 0)
                + (if truthy (dict_get loc ''amenities'' (PBool False)) then 2 else 0)
                - (if truthy (dict_get loc ''high_competition'' (PBool False)) then 4 else 0)
                - (if truthy (dict_get loc ''high_land_cost'' (PBool False)) then 3 else 0)
      \<longrightarrow> adjust_roi (Number base_roi) (loc(''fast_charging'' \<mapsto> v))
            = fadd (adjust_roi (Number base_roi) loc) 5)
   \<and> (\<not> truthy (dict_get loc ''fast_charging'' (PBool False)) \<and> truthy v
        \<and> calculate_fallback_roi f = Inr base_roi
      \<longrightarrow> adjust_roi (Number base_roi) (loc(''fast_charging'' \<mapsto> v))
            = fadd (adjust_roi (Number base_roi) loc) 5)
   \<and> (\<not> truthy (dict_get loc ''fast_charging'' (PBool False)) \<and> truthy v
      \<longrightarrow> fle (adjust_roi (Number base_roi) loc)
              (adjust_roi (Number base_roi) (loc(''fast_charging'' \<mapsto> v)))
          \<and> fle (adjust_roi (Number base_roi) (loc(''fast_charging'' \<mapsto> v)))
              (fadd (adjust_roi (Number base_roi) loc) 5))"
proof (intro conjI impI)
  assume "calculate_fallback_roi f = Inr x \<and> as_num (ev_adoption_rate f) = Some a
      \<and> a \<le> 20 \<and> 20 < a'"
  then show "calculate_fallback_roi (f\<lparr>ev_adoption_rate := PNum a'\<rparr>) = Inr (x + 4)"
    using ev_step by blast
next
  assume h: "\<not> truthy (dict_get loc ''fast_charging'' (PBool False)) \<and> truthy v
        \<and> 5 \<le> base_roi
                + (if truthy (dict_get loc ''solar_powered'' (PBool False)) then 3 else 0)
                + (if truthy (dict_get loc ''amenities'' (PBool False)) then 2 else 0)
                - (if truthy (dict_get loc ''high_competition'' (PBool False)) then 4 else 0)
                - (if truthy (dict_get loc ''high_land_cost'' (PBool False)) then 3 else 0)"
  then have s: "\<not> truthy (dict_get loc ''fast_charging'' (PBool False))" "truthy v" by simp_all
  from fast_step [OF s, of base_roi] h
  show "adjust_roi (Number base_roi) (loc(''fast_charging'' \<mapsto> v))
          = fadd (adjust_roi (Number base_roi) loc) 5"
    by (simp add: max_def)
next
  assume h: "\<not> truthy (dict_get loc ''fast_charging'' (PBool False)) \<and> truthy v
        \<and> calculate_fallback_roi f = Inr base_roi"
  then have s: "\<not> truthy (dict_get loc ''fast_charging'' (PBool False))" "truthy v" by simp_all
  from h fallback_roi_range [of f base_roi] have "12 \<le> base_roi" by simp
  with fast_step [OF s, of base_roi]
  show "adjust_roi (Number base_roi) (loc(''fast_charging'' \<mapsto> v))
          = fadd (adjust_roi (Number base_roi) loc) 5"
    by (simp add: max_def)
next
  assume h: "\<not> truthy (dict_get loc ''fast_charging'' (PBool False)) \<and> truthy v"
  then have s: "\<not> truthy (dict_get loc ''fast_charging'' (PBool False))" "truthy v" by simp_all
  from fast_step [OF s, of base_roi]
  show "fle (adjust_roi (Number base_roi) loc)
          (adjust_roi (Number base_roi) (loc(''fast_charging'' \<mapsto> v)))"
    by (simp add: max_def)
next
  assume h: "\<not> truthy (dict_get loc ''fast_charging'' (PBool False)) \<and> truthy v"
  then have s: "\<not> truthy (dict_get loc ''fast_charging'' (PBool False))" "truthy v" by simp_all
  from fast_step [OF s, of base_roi]
  show "fle (adjust_roi (Number base_roi) (loc(''fast_charging'' \<mapsto> v)))
          (fadd (adjust_roi (Number base_roi) loc) 5)"
    by (simp add: max_def)
qed

section \<open>The viability score\<close>









text \<open>
  A batch of the sample record and an empty record.
\<close>

theorem batch_invariant_witness:
  "\<exists>r. batch_analyze (Some (load_essential_models Unloadable Unloadable))
          (Some [JObject (map_of sample_data), JObject (map_of [])]) = Ok200 r
       \<and> length (results r) = 2 \<and> total_locations r = 2
       \<and> successful_analysis r = length (filter (\<lambda>e. \<not> has_error e) (results r))
       \<and> location_index (results r ! 1) = 1"
proof -
  let ?m = "load_essential_models Unloadable Unloadable"
  let ?b = "[JObject (map_of sample_data), JObject (map_of [])]"
  have "\<forall>x\<in>set ?b. x \<noteq> JOther" by simp
  with batch_invariant [of "Some ?m" ?b _ ?m] obtain r where
    ok: "batch_analyze (Some ?m) (Some ?b) = Ok200 r" by blast
  with batch_invariant [of "Some ?m" ?b r ?m] show ?thesis by auto
qed

text \<open>
  A classifier that answers 7, and a registry without classifier.
\<close>

theorem cluster_result_resolved_witness:
  "cluster_of (load_essential_models Absent (Loadable (constant_classifier 7))) sample_features
     = Inr 7
   \<and> cluster_id (predict_location_cluster
        (load_essential_models Absent (Loadable (constant_classifier 7))) sample_features) = 7
   \<and> cluster_name (predict_location_cluster
        (load_essential_models Absent (Loadable (constant_classifier 7))) sample_features)
       = ''Unknown''
   \<and> description (predict_location_cluster
        (load_essential_models Absent (Loadable (constant_classifier 7))) sample_features)
       = ''Standard location with balanced potential''
   \<and> cluster_of (load_essential_models Absent Absent) sample_features = Inl KeyError
   \<and> predict_location_cluster (load_essential_models Absent Absent) sample_features
       = default_cluster"
  using cluster_result_resolved
          [of "load_essential_models Absent (Loadable (constant_classifier 7))"
              sample_features 7 KeyError]
        cluster_result_resolved
          [of "load_essential_models Absent Absent" sample_features 7 KeyError]
  by (simp add: cluster_of_def load_loadable_cluster load_absent_cluster constant_classifier_def
      table_get_cluster_types get_cluster_description_unfold)

text \<open>
  The sample features with the EV adoption rate raised from 15 to 25, and a record
  flagged high-competition with fast charging switched on.
\<close>

theorem monotone_steps_witness:
  "calculate_fallback_roi sample_features = Inr 22
   \<and> as_num (ev_adoption_rate sample_features) = Some 15
   \<and> calculate_fallback_roi (sample_features\<lparr>ev_adoption_rate := PNum 25\<rparr>) = Inr 26
   \<and> \<not> truthy (dict_get (map_of [(''high_competition'', PBool True)]) ''fast_charging''
          (PBool False))
   \<and> adjust_roi (Number 22) (map_of [(''high_competition'', PBool True)]) = Number 18
   \<and> adjust_roi (Number 22) ((map_of [(''high_competition'', PBool True)])
         (''fast_charging'' \<mapsto> PBool True)) = Number 23"
proof -
  let ?L = "map_of [(''high_competition'', PBool True)]"
  note inst = monotone_steps [of sample_features 22 15 25 ?L "PBool True" 22]
  have a: "as_num (ev_adoption_rate sample_features) = Some 15"
    by (simp add: sample_features_def)
  have t: "\<not> truthy (dict_get ?L ''fast_charging'' (PBool False))"
    by (simp add: dict_get_def)
  have u: "adjust_roi (Number 22) ?L = Number 18"
    by (simp add: adjust_roi_Number dict_get_def)
  from inst fallback_sample a
  have ev: "calculate_fallback_roi (sample_features\<lparr>ev_adoption_rate := PNum 25\<rparr>) = Inr 26"
    by simp
  from inst fallback_sample t
  have "adjust_roi (Number 22) (?L(''fast_charging'' \<mapsto> PBool True))
          = fadd (adjust_roi (Number 22) ?L) 5"
    by simp
  with u have fc: "adjust_roi (Number 22) (?L(''fast_charging'' \<mapsto> PBool True)) = Number 23"
    by simp
  from fallback_sample a ev t u fc show ?thesis by blast
qed

section \<open>A batch with a record that lacks a required field\<close>

lemma prepare_missing_income:
  "prepare_ev_features (map_of (without_key ''avg_income'' sample_data)) =
     Inr (sample_features\<lparr>income_level := PNum 0\<rparr>)"
  by (simp add: prepare_ev_features_def sample_data_def sample_features_def bind_result_def
      py_div_def dict_get_def without_key_def)

lemma predict_missing_income_succeeds:
  "\<exists>p. predict_ev_station_viability m (map_of (without_key ''avg_income'' sample_data)) = Inr p"
  by (rule predict_succeeds [OF prepare_missing_income, of 75 15])
     (simp_all add: dict_get_def sample_data_def without_key_def)

lemma has_error_entry:
  "has_error \<lparr> outcome = out, location_index = i, location_name = n \<rparr> = isl out"
  by (simp add: has_error_def)

text \<open>
  Claim C6 against the code. The second record of the batch lacks \<open>avg_income\<close>, which
  the \<open>/predict\<close> endpoint would report as missing. The batch endpoint does not check:
  the feature builder reads the missing income as 0, all three analyses succeed, and
  entry 1 carries \<open>location_index = 1\<close> and no error, whatever models are registered.
\<close>

theorem batch_missing_income_all_succeed:
  "missing_fields (map_of (without_key ''avg_income'' sample_data)) = [''avg_income'']
   \<and> (\<exists>r. batch_analyze (Some m) (Some batch_missing_income) = Ok200 r
          \<and> total_locations r = 3 \<and> successful_analysis r = 3
          \<and> \<not> has_error (results r ! 1) \<and> location_index (results r ! 1) = 1)"
proof -
  obtain p where p: "predict_ev_station_viability m (map_of sample_data) = Inr p"
    using predict_sample_succeeds by blast
  obtain q where q: "predict_ev_station_viability m
      (map_of (without_key ''avg_income'' sample_data)) = Inr q"
    using predict_missing_income_succeeds by blast
  have miss: "missing_fields (map_of (without_key ''avg_income'' sample_data)) = [''avg_income'']"
    by (simp add: missing_fields_def required_fields_def without_key_def sample_data_def)
  have "batch_analyze (Some m) (Some batch_missing_income) =
      Ok200 \<lparr> total_locations = 3, successful_analysis = 3,
        results =
          [\<lparr> outcome = Inr p, location_index = 0,
             location_name = dict_get (map_of sample_data) ''location_name''
               (PStr (''Location_'' @ str_nat 0)) \<rparr>,
           \<lparr> outcome = Inr q, location_index = 1,
             location_name = dict_get (map_of (without_key ''avg_income'' sample_data))
               ''location_name'' (PStr (''Location_'' @ str_nat 1)) \<rparr>,
           \<lparr> outcome = Inr p, location_index = 2,
             location_name = dict_get (map_of sample_data) ''location_name''
               (PStr (''Location_'' @ str_nat 2)) \<rparr>] \<rparr>"
    by (simp add: batch_analyze_def batch_missing_income_def p q has_error_entry
        numeral_2_eq_2)
  then show ?thesis using miss by (simp add: has_error_entry)
qed

section \<open>Startup without the ROI artifact\<close>

text \<open>
  Claim C2 against the code. With the ROI artifact absent nothing is registered, the
  lookup in \<open>predict_roi\<close> raises and the fixed default with ROI 15 is returned; with
  an artifact that fails to load the fallback marker is registered and the formula gives
  base ROI 22 and adjusted ROI 32 on the sample record. The clustering side answers alike
  in both situations.
\<close>

theorem absent_artifact_skips_fallback:
  "roi_predictor (load_essential_models Absent Absent) = None
   \<and> predict_roi (load_essential_models Absent Absent) sample_features (map_of sample_data)
       = default_roi
   \<and> annual_roi default_roi = Number 15
   \<and> roi_predictor (load_essential_models Unloadable Absent) = Some FallbackMarker
   \<and> calculate_fallback_roi sample_features = Inr 22
   \<and> annual_roi (predict_roi (load_essential_models Unloadable Absent) sample_features
        (map_of sample_data)) = Number 32
   \<and> predict_location_cluster (load_essential_models Absent Absent) sample_features
       = predict_location_cluster (load_essential_models Absent Unloadable) sample_features"
  by (simp add: load_absent_roi load_unloadable_roi predict_roi_absent
      predict_roi_sample_fallback fallback_sample default_roi_def
      predict_location_cluster_def cluster_of_def load_absent_cluster load_unloadable_cluster)

end
